theory Spec2Isabelle
  imports Main
begin

section \<open>The Go library functions that main.go calls on strings\<close>

text \<open>
  Go strings are byte sequences; they are modelled as \<open>string\<close> (a list of 8-bit
  characters). Go's \<open>int\<close> is modelled as \<open>int\<close>: every integer that
  \<open>populateColumns\<close> computes comes from its fixed header literal and stays below 16,
  so the 64-bit wrap-around of the source is never reached.
\<close>

text \<open>
  \<open>strings.Split(s, sep)\<close> for a non-empty separator: the pieces of \<open>s\<close> between
  the occurrences of \<open>sep\<close>, scanning from the left; a string without the separator
  (the empty string too) gives one piece. \<open>cur\<close> holds the current piece reversed.
  With an empty separator Go cuts the string into its characters (one byte each in
  ASCII text); main.go passes \<open>","\<close> and \<open>"_"\<close> only.
\<close>

function SplitFrom :: "string \<Rightarrow> string \<Rightarrow> string \<Rightarrow> string list" where
  "SplitFrom sep cur rest =
     (if rest = [] then [rev cur]
      else if sep \<noteq> [] \<and> take (length sep) rest = sep
        then rev cur # SplitFrom sep [] (drop (length sep) rest)
      else SplitFrom sep (hd rest # cur) (tl rest))"
  by pat_completeness auto
termination
  by (relation "measure (\<lambda>(sep, cur, rest). length rest)") auto

declare SplitFrom.simps [simp del]

definition Split :: "string \<Rightarrow> string \<Rightarrow> string list" where
  "Split s sep = (if sep = [] then map (\<lambda>c. [c]) s else SplitFrom sep [] s)"

text \<open>
  \<open>strconv.Itoa\<close>: the decimal digits of an integer, with a minus sign when it is
  negative.
\<close>

definition digitChar :: "nat \<Rightarrow> char" where
  "digitChar d = char_of (48 + d)"

function digits :: "nat \<Rightarrow> string" where
  "digits n = (if n < 10 then [digitChar n] else digits (n div 10) @ [digitChar (n mod 10)])"
  by pat_completeness auto
termination
  by (relation "measure (\<lambda>n. n)") auto

declare digits.simps [simp del]

definition Itoa :: "int \<Rightarrow> string" where
  "Itoa i = (if i < 0 then CHR ''-'' # digits (nat (- i)) else digits (nat i))"

text \<open>
  \<open>strconv.Atoi\<close>: an optional sign followed by at least one decimal digit and nothing
  else; a value outside the 64-bit range is an error as well. \<open>None\<close> is the error.
\<close>

definition isDigit :: "char \<Rightarrow> bool" where
  "isDigit c = (48 \<le> (of_char c :: nat) \<and> (of_char c :: nat) \<le> 57)"

definition digitVal :: "char \<Rightarrow> int" where
  "digitVal c = int (of_char c) - 48"

definition Atoi :: "string \<Rightarrow> int option" where
  "Atoi s =
     (let neg = (s \<noteq> [] \<and> hd s = CHR ''-'');
          ds = (if s \<noteq> [] \<and> (hd s = CHR ''-'' \<or> hd s = CHR ''+'') then tl s else s)
      in if ds = [] \<or> \<not> list_all isDigit ds then None
         else let n = foldl (\<lambda>a c. 10 * a + digitVal c) 0 ds;
                  v = (if neg then - n else n)
              in if v < - (2 ^ 63) \<or> 2 ^ 63 - 1 < v then None else Some v)"

text \<open>
  \<open>strings.ToLower\<close> on ASCII text, the only text \<open>populateColumns\<close> applies it to
  (the tokens of its header literal): the letters A to Z become a to z, every other
  character stays.
\<close>

definition lowerChar :: "char \<Rightarrow> char" where
  "lowerChar c =
     (if 65 \<le> (of_char c :: nat) \<and> (of_char c :: nat) \<le> 90
      then char_of ((of_char c :: nat) + 32) else c)"

definition ToLower :: "string \<Rightarrow> string" where
  "ToLower s = map lowerChar s"

section \<open>The data model\<close>

text \<open>
  Modelled from the spec: the type declarations of package \<open>models\<close>
  (github.com/ONSdigital/dp-dataset-api) are imported by main.go and are not part of
  the source tree. The records below hold the fields main.go reads, with the shape
  the spec's data model gives them: alerts and usage notes are optional (main.go tests
  both pointers against nil), every other field is a plain value. A Go slice is a
  list; a nil slice and an empty one are both \<open>[]\<close>.
\<close>

record CodeList =
  CodeList_Description :: string
  CodeList_HRef :: string
  CodeList_Name :: string
  CodeList_Label :: string

record Alert =
  Alert_Description :: string
  Alert_Type :: string

record UsageNote =
  UsageNote_Note :: string
  UsageNote_Title :: string

record ContactDetails =
  ContactDetails_Email :: string
  ContactDetails_Name :: string
  ContactDetails_Telephone :: string

record Publisher =
  Publisher_HRef :: string
  Publisher_Name :: string
  Publisher_Type :: string

record DownloadObject =
  DownloadObject_HRef :: string

record DownloadList =
  DownloadList_CSV :: DownloadObject

record Metadata =
  Metadata_Alerts :: "Alert list option"
  Metadata_Contacts :: "ContactDetails list"
  Metadata_Description :: string
  Metadata_Dimensions :: "CodeList list"
  Metadata_Downloads :: DownloadList
  Metadata_License :: string
  Metadata_Publisher :: Publisher
  Metadata_ReleaseDate :: string
  Metadata_ReleaseFrequency :: string
  Metadata_Theme :: string
  Metadata_Title :: string
  Metadata_UnitOfMeasure :: string
  Metadata_UsageNotes :: "UsageNote list option"

text \<open>The zero values Go gives to \<open>var dim models.CodeList\<close> and \<open>var md models.Metadata\<close>.\<close>

definition zeroCodeList :: CodeList where
  "zeroCodeList =
     \<lparr>CodeList_Description = [], CodeList_HRef = [], CodeList_Name = [], CodeList_Label = []\<rparr>"

definition zeroMetadata :: Metadata where
  "zeroMetadata =
     \<lparr>Metadata_Alerts = None, Metadata_Contacts = [], Metadata_Description = [],
      Metadata_Dimensions = [],
      Metadata_Downloads = \<lparr>DownloadList_CSV = \<lparr>DownloadObject_HRef = []\<rparr>\<rparr>,
      Metadata_License = [],
      Metadata_Publisher = \<lparr>Publisher_HRef = [], Publisher_Name = [], Publisher_Type = []\<rparr>,
      Metadata_ReleaseDate = [], Metadata_ReleaseFrequency = [], Metadata_Theme = [],
      Metadata_Title = [], Metadata_UnitOfMeasure = [], Metadata_UsageNotes = None\<rparr>"

text \<open>The types main.go declares itself.\<close>

record Creator =
  Creator_Name :: string
  Creator_Type :: string
  Creator_ID :: string

text \<open>
  \<open>type Column map[string]interface{}\<close>: the values main.go stores are strings and
  the boolean \<open>true\<close>.
\<close>

datatype jvalue = JString string | JBool bool

type_synonym Column = "string \<rightharpoonup> jvalue"

record Columns =
  Columns_C :: "Column list"
  Columns_About :: string

record Note =
  Note_Type :: string
  Note_Target :: string
  Note_Body :: string
  Note_Motivation :: string

record CSVW =
  CSVW_Context :: string
  CSVW_URL :: string
  CSVW_Title :: string
  CSVW_Description :: string
  CSVW_Issued :: string
  CSVW_Creator :: Creator
  CSVW_Contact :: ContactDetails
  CSVW_TableSchema :: Columns
  CSVW_Theme :: string
  CSVW_License :: string
  CSVW_Frequency :: string
  CSVW_Notes :: "Note list"

text \<open>
  The ways the program stops with a panic: a field read through a nil pointer, an
  index or a slice bound out of range, and the two explicit \<open>panic\<close> calls (with a
  message, or with the error \<open>json.Marshal\<close> returned).
\<close>

datatype panic =
    NilPointerDereference
  | IndexOutOfRange
  | SliceBoundsOutOfRange
  | PanicMsg string
  | PanicErr string

section \<open>addNotes\<close>

text \<open>
  The two loops of \<open>addNotes\<close>, each appending one note per element to the list
  built so far. The composite literals leave \<open>Motivation\<close> out, so it has Go's zero
  value, the empty string.
\<close>

fun appendAlerts :: "string \<Rightarrow> Alert list \<Rightarrow> Note list \<Rightarrow> Note list" where
  "appendAlerts url [] list = list"
| "appendAlerts url (a # alerts) list =
     appendAlerts url alerts
       (list @ [\<lparr>Note_Type = Alert_Type a, Note_Target = url,
                 Note_Body = Alert_Description a, Note_Motivation = []\<rparr>])"

fun appendUsageNotes :: "string \<Rightarrow> UsageNote list \<Rightarrow> Note list \<Rightarrow> Note list" where
  "appendUsageNotes url [] list = list"
| "appendUsageNotes url (u # notes) list =
     appendUsageNotes url notes
       (list @ [\<lparr>Note_Type = UsageNote_Title u, Note_Target = url @ ''#col=need-to-store'',
                 Note_Body = UsageNote_Note u, Note_Motivation = []\<rparr>])"

definition addNotes :: "string \<Rightarrow> Alert list \<Rightarrow> UsageNote list \<Rightarrow> Note list" where
  "addNotes url alerts notes = appendUsageNotes url notes (appendAlerts url alerts [])"

section \<open>populateColumns\<close>

definition headerRow :: string where
  "headerRow = ''V4_2,Data marking,Coefficient of variation,Time_codelist,Time,ashe-geography,Geography,Hours_codelist,Hours,Sex_codelist,Sex,WorkingPattern_codelist,WorkingPattern,Statistics_codelist,Statistics''"

text \<open>The four \<open>Column{...}\<close> literals of \<open>populateColumns\<close>, by the role of the column.\<close>

definition observationColumn :: "string \<Rightarrow> string \<Rightarrow> string \<Rightarrow> Column" where
  "observationColumn title unit csvURL =
     [''titles'' \<mapsto> JString title,
      ''name'' \<mapsto> JString unit,
      ''datatype'' \<mapsto> JString ''number'',
      ''required'' \<mapsto> JBool True,
      ''@id'' \<mapsto> JString (csvURL @ ''#col=0'')]"

definition markingColumn :: "string \<Rightarrow> string \<Rightarrow> int \<Rightarrow> Column" where
  "markingColumn title csvURL i =
     [''titles'' \<mapsto> JString title,
      ''@id'' \<mapsto> JString (csvURL @ ''#col='' @ Itoa i)]"

definition codeColumn :: "string \<Rightarrow> CodeList \<Rightarrow> string \<Rightarrow> int \<Rightarrow> Column" where
  "codeColumn codeHeader dim csvURL pos =
     [''name'' \<mapsto> JString codeHeader,
      ''@id'' \<mapsto> JString (csvURL @ ''#col='' @ Itoa pos),
      ''valueURL'' \<mapsto> JString (CodeList_HRef dim @ ''/codes/{'' @ codeHeader @ ''}''),
      ''required'' \<mapsto> JBool True]"

definition labelColumn :: "string \<Rightarrow> CodeList \<Rightarrow> string \<Rightarrow> int \<Rightarrow> Column" where
  "labelColumn dimHeader dim csvURL pos =
     [''titles'' \<mapsto> JString (CodeList_Label dim),
      ''name'' \<mapsto> JString dimHeader,
      ''description'' \<mapsto> JString (CodeList_Description dim),
      ''@id'' \<mapsto> JString (csvURL @ ''#col='' @ Itoa pos)]"

text \<open>
  The inner loop over \<open>dims\<close>: the first dimension whose name is equal to
  \<open>dimHeader\<close> (an exact comparison of the two strings), or the zero value that
  \<open>dim\<close> was declared with when the loop ends without a match.
\<close>

fun lookupDim :: "CodeList list \<Rightarrow> string \<Rightarrow> CodeList" where
  "lookupDim [] dimHeader = zeroCodeList"
| "lookupDim (d # dims) dimHeader =
     (if CodeList_Name d = dimHeader then d else lookupDim dims dimHeader)"

text \<open>
  The data-marking loop \<open>for i := 1; i <= offset; i++\<close>; reading \<open>header[i]\<close> past
  the end of the header panics.
\<close>

function markLoop :: "string \<Rightarrow> string list \<Rightarrow> int \<Rightarrow> int \<Rightarrow> Column list \<Rightarrow> panic + Column list" where
  "markLoop csvURL header offset i list =
     (if i \<le> offset then
        (if 0 \<le> i \<and> i < int (length header)
         then markLoop csvURL header offset (i + 1)
                (list @ [markingColumn (header ! nat i) csvURL i])
         else Inl IndexOutOfRange)
      else Inr list)"
  by pat_completeness auto
termination
  by (relation "measure (\<lambda>(csvURL, header, offset, i, list). nat (offset + 1 - i))") auto

declare markLoop.simps [simp del]

text \<open>
  The dimension loop \<open>for i := 0; i < len(header); i = i + 2\<close> over the header that
  is left after the observation and data-marking tokens; reading \<open>header[i+1]\<close> past
  the end panics.
\<close>

function dimLoop ::
  "CodeList list \<Rightarrow> string \<Rightarrow> int \<Rightarrow> string list \<Rightarrow> nat \<Rightarrow> Column list \<Rightarrow> panic + Column list" where
  "dimLoop dims csvURL offset header i list =
     (if i < length header then
        (if i + 1 < length header then
           (let codeHeader = header ! i;
                dimHeader = ToLower (header ! (i + 1));
                dim = lookupDim dims dimHeader;
                codeCol = codeColumn codeHeader dim csvURL (offset + int i);
                labelCol = labelColumn dimHeader dim csvURL (offset + int i + 1)
            in dimLoop dims csvURL offset header (i + 2) (list @ [codeCol, labelCol]))
         else Inl IndexOutOfRange)
      else Inr list)"
  by pat_completeness auto
termination
  by (relation "measure (\<lambda>(dims, csvURL, offset, header, i, list). length header - i)") auto

declare dimLoop.simps [simp del]

text \<open>
  \<open>populateColumns\<close>. \<open>strings.Split\<close> never returns an empty slice, so
  \<open>header[0]\<close> and \<open>parts[0]\<close> are always there (lemma \<open>Split_not_Nil\<close>). The
  line the source prints before its first panic is not modelled.
\<close>

definition populateColumns :: "CodeList list \<Rightarrow> string \<Rightarrow> string \<Rightarrow> panic + Column list" where
  "populateColumns dims unit csvURL =
     (let header = Split headerRow '','';
          parts = Split (header ! 0) ''_''
      in if length parts \<noteq> 2 then Inl (PanicMsg ''not valid v4 header'')
         else case Atoi (parts ! 1) of
           None \<Rightarrow> Inl (PanicMsg ''not valid v4 header'')
         | Some offset \<Rightarrow>
             (let col = observationColumn (header ! 0) unit csvURL;
                  list = [col]
              in case (if offset \<noteq> 0 then markLoop csvURL header offset 1 list else Inr list) of
                   Inl p \<Rightarrow> Inl p
                 | Inr list \<Rightarrow>
                     (let offset = offset + 1
                      in if offset < 0 \<or> int (length header) < offset
                         then Inl SliceBoundsOutOfRange
                         else dimLoop dims csvURL offset (drop (nat offset) header) 0 list)))"

text \<open>Reading one attribute of the column at a position of the result.\<close>

definition attr :: "panic + Column list \<Rightarrow> nat \<Rightarrow> string \<Rightarrow> jvalue option" where
  "attr r i k =
     (case r of Inl p \<Rightarrow> None
      | Inr cols \<Rightarrow> (if i < length cols then (cols ! i) k else None))"

section \<open>assignTopLevel\<close>

text \<open>
  The argument is a pointer, \<open>None\<close> when it is nil. The fields of the composite
  literal are evaluated in the order they are written: the first one reads through the
  pointer, and \<open>m.Contacts[0]\<close> panics on an empty list. \<open>TableSchema\<close> and
  \<open>Notes\<close> are not set, so they hold their zero values.
\<close>

definition assignTopLevel :: "Metadata option \<Rightarrow> panic + CSVW" where
  "assignTopLevel mp =
     (case mp of
        None \<Rightarrow> Inl NilPointerDereference
      | Some m \<Rightarrow>
          (case Metadata_Contacts m of
             [] \<Rightarrow> Inl IndexOutOfRange
           | c # cs \<Rightarrow>
               Inr \<lparr>CSVW_Context = ''http://www.w3.org/ns/csvw'',
                    CSVW_URL = DownloadObject_HRef (DownloadList_CSV (Metadata_Downloads m)),
                    CSVW_Title = Metadata_Title m,
                    CSVW_Description = Metadata_Description m,
                    CSVW_Issued = Metadata_ReleaseDate m,
                    CSVW_Creator =
                      \<lparr>Creator_Name = Publisher_Name (Metadata_Publisher m),
                       Creator_Type = Publisher_Type (Metadata_Publisher m),
                       Creator_ID = Publisher_HRef (Metadata_Publisher m)\<rparr>,
                    CSVW_Contact = c,
                    CSVW_TableSchema = \<lparr>Columns_C = [], Columns_About = []\<rparr>,
                    CSVW_Theme = Metadata_Theme m,
                    CSVW_License = Metadata_License m,
                    CSVW_Frequency = Metadata_ReleaseFrequency m,
                    CSVW_Notes = []\<rparr>))"

section \<open>getMetadata and main\<close>

text \<open>
  What the program does not compute itself is a parameter: the four calls of
  \<open>getMetadata\<close> into net/http, io/ioutil and encoding/json, and the
  \<open>json.Marshal\<close> of \<open>main\<close>. Each returns an error (its message, \<open>Inl\<close>) or a
  result. \<open>json.Unmarshal\<close> writes into the variable it is given, so it takes that
  variable's value and returns the value it leaves there together with its error.
\<close>

record ('req, 'resp) World =
  http_NewRequest :: "string \<Rightarrow> string \<Rightarrow> string + 'req"
  client_Do :: "'req \<Rightarrow> string + 'resp"
  ioutil_ReadAll :: "'resp \<Rightarrow> string + string"
  json_Unmarshal :: "string \<Rightarrow> Metadata \<Rightarrow> Metadata \<times> string option"
  json_Marshal :: "CSVW \<Rightarrow> string + string"

text \<open>
  \<open>getMetadata\<close> ends in one of two ways: \<open>log.Fatal\<close> writes its message and
  exits the process (\<open>Fatal\<close>), or the function returns a pointer, nil or not, after
  the lines it logged with \<open>log.Println\<close> (\<open>Returned\<close>).
\<close>

datatype fetched = Fatal string | Returned "Metadata option" "string list"

definition getMetadata :: "('req, 'resp) World \<Rightarrow> string \<Rightarrow> fetched" where
  "getMetadata w url =
     (case http_NewRequest w ''GET'' url of
        Inl err \<Rightarrow> Fatal (''NewRequest: '' @ err)
      | Inr req \<Rightarrow>
          (case client_Do w req of
             Inl err \<Rightarrow> Fatal (''Do: '' @ err)
           | Inr resp \<Rightarrow>
               (case ioutil_ReadAll w resp of
                  Inl err \<Rightarrow> Returned None []
                | Inr b \<Rightarrow>
                    (case json_Unmarshal w b zeroMetadata of
                       (md, Some err) \<Rightarrow> Returned (Some md) [err]
                     | (md, None) \<Rightarrow> Returned (Some md) []))))"

text \<open>
  \<open>main\<close>: the lines logged, and how the process ends: exited by \<open>log.Fatal\<close>,
  stopped by a panic, or finished after printing the document.
\<close>

datatype ending = Exited string | Panicked panic | Printed string

definition metadataURL :: string where
  "metadataURL = ''https://api.beta.ons.gov.uk/v1/datasets/ashe-table-7-hours/editions/time-series/versions/1/metadata''"

definition main :: "('req, 'resp) World \<Rightarrow> string list \<times> ending" where
  "main w =
     (let url = metadataURL in
      case getMetadata w url of
        Fatal msg \<Rightarrow> ([], Exited msg)
      | Returned metadata logged \<Rightarrow>
          (case assignTopLevel metadata of
             Inl p \<Rightarrow> (logged, Panicked p)
           | Inr csv0 \<Rightarrow>
               (case metadata of
                  None \<Rightarrow> (logged, Panicked NilPointerDereference)
                | Some md \<Rightarrow>
                    (let href = DownloadObject_HRef (DownloadList_CSV (Metadata_Downloads md));
                         csv1 = csv0\<lparr>CSVW_TableSchema :=
                                  (CSVW_TableSchema csv0)\<lparr>Columns_About := url\<rparr>\<rparr>
                     in case populateColumns (Metadata_Dimensions md)
                               (Metadata_UnitOfMeasure md) href of
                          Inl p \<Rightarrow> (logged, Panicked p)
                        | Inr cols \<Rightarrow>
                            (let csv2 = csv1\<lparr>CSVW_TableSchema :=
                                          (CSVW_TableSchema csv1)\<lparr>Columns_C := cols\<rparr>\<rparr>;
                                 alerts = (case Metadata_Alerts md of None \<Rightarrow> [] | Some a \<Rightarrow> a);
                                 usage = (case Metadata_UsageNotes md of None \<Rightarrow> [] | Some u \<Rightarrow> u);
                                 csv3 = csv2\<lparr>CSVW_Notes := addNotes href alerts usage\<rparr>
                             in case json_Marshal w csv3 of
                                  Inl err \<Rightarrow> (logged, Panicked (PanicErr err))
                                | Inr b \<Rightarrow> (logged, Printed (b @ [char_of (10::nat)])))))))"

section \<open>Sample inputs\<close>

text \<open>
  Concrete inputs on which the theorems below are instantiated: a dimension list with
  two entries of the same name, one whose only entry is named in upper case, a
  metadata document with one contact, and a world in which the request succeeds and
  reading the response body fails.
\<close>

definition sampleDims :: "CodeList list" where
  "sampleDims =
     [\<lparr>CodeList_Description = ''Calendar years'', CodeList_HRef = ''http://codes/time'',
       CodeList_Name = ''time'', CodeList_Label = ''Time period''\<rparr>,
      \<lparr>CodeList_Description = ''Second entry of the same name'', CodeList_HRef = ''http://codes/time2'',
       CodeList_Name = ''time'', CodeList_Label = ''Another''\<rparr>]"

definition upperDims :: "CodeList list" where
  "upperDims =
     [\<lparr>CodeList_Description = ''Calendar years'', CodeList_HRef = ''http://codes/time'',
       CodeList_Name = ''TIME'', CodeList_Label = ''Time period''\<rparr>]"

definition sampleContact :: ContactDetails where
  "sampleContact =
     \<lparr>ContactDetails_Email = ''earnings@ons.gov.uk'', ContactDetails_Name = ''Earnings team'',
      ContactDetails_Telephone = ''01633''\<rparr>"

definition sampleMetadata :: Metadata where
  "sampleMetadata =
     zeroMetadata
       \<lparr>Metadata_Contacts := [sampleContact],
        Metadata_Description := ''Hours worked'',
        Metadata_Downloads := \<lparr>DownloadList_CSV = \<lparr>DownloadObject_HRef = ''http://csv''\<rparr>\<rparr>,
        Metadata_License := ''OGL'',
        Metadata_Publisher :=
          \<lparr>Publisher_HRef = ''http://ons'', Publisher_Name = ''ONS'', Publisher_Type = ''org''\<rparr>,
        Metadata_ReleaseDate := ''2017-10-26'',
        Metadata_ReleaseFrequency := ''Annual'',
        Metadata_Theme := ''Labour'',
        Metadata_Title := ''ASHE table 7''\<rparr>"

definition sampleAlerts :: "Alert list" where
  "sampleAlerts =
     [\<lparr>Alert_Description = ''Figures revised'', Alert_Type = ''correction''\<rparr>,
      \<lparr>Alert_Description = ''Late release'', Alert_Type = ''alert''\<rparr>]"

definition sampleUsage :: "UsageNote list" where
  "sampleUsage = [\<lparr>UsageNote_Note = ''Estimates only'', UsageNote_Title = ''Quality''\<rparr>]"

definition bodyReadFailure :: "(string, nat) World" where
  "bodyReadFailure =
     \<lparr>http_NewRequest = (\<lambda>method url. Inr url),
      client_Do = (\<lambda>req. Inr 200),
      ioutil_ReadAll = (\<lambda>resp. Inl ''unexpected EOF''),
      json_Unmarshal = (\<lambda>b md. (md, None)),
      json_Marshal = (\<lambda>csv. Inr ''{}'')\<rparr>"

section \<open>The string functions on the header literal\<close>

lemma SplitFrom_not_Nil: "SplitFrom sep cur rest \<noteq> []"
  by (induction sep cur rest rule: SplitFrom.induct) (subst SplitFrom.simps, simp)

lemma Split_not_Nil: "sep \<noteq> [] \<Longrightarrow> Split s sep \<noteq> []"
  by (simp add: Split_def SplitFrom_not_Nil)

lemma header_tokens:
  "Split headerRow '','' =
     [''V4_2'', ''Data marking'', ''Coefficient of variation'',
      ''Time_codelist'', ''Time'', ''ashe-geography'', ''Geography'',
      ''Hours_codelist'', ''Hours'', ''Sex_codelist'', ''Sex'',
      ''WorkingPattern_codelist'', ''WorkingPattern'',
      ''Statistics_codelist'', ''Statistics'']"
  by code_simp

lemma first_token_parts: "Split ''V4_2'' ''_'' = [''V4'', ''2'']"
  by code_simp

lemma Atoi_2: "Atoi ''2'' = Some 2"
  by code_simp

lemma lower_tokens:
  "ToLower ''Time'' = ''time''"
  "ToLower ''Geography'' = ''geography''"
  "ToLower ''Hours'' = ''hours''"
  "ToLower ''Sex'' = ''sex''"
  "ToLower ''WorkingPattern'' = ''workingpattern''"
  "ToLower ''Statistics'' = ''statistics''"
  by code_simp+

lemma Itoa_positions:
  "Itoa 0 = ''0''" "Itoa 1 = ''1''" "Itoa 2 = ''2''" "Itoa 3 = ''3''" "Itoa 4 = ''4''"
  "Itoa 5 = ''5''" "Itoa 6 = ''6''" "Itoa 7 = ''7''" "Itoa 8 = ''8''" "Itoa 9 = ''9''"
  "Itoa 10 = ''10''" "Itoa 11 = ''11''" "Itoa 12 = ''12''" "Itoa 13 = ''13''" "Itoa 14 = ''14''"
  by code_simp+

section \<open>The columns of the fixed header\<close>

lemma markLoop_fixed:
  "markLoop csvURL (Split headerRow '','') 2 1 list =
     Inr (list @ [markingColumn ''Data marking'' csvURL 1,
                  markingColumn ''Coefficient of variation'' csvURL 2])"
  unfolding header_tokens
  by (simp add: markLoop.simps)

lemma dimLoop_fixed:
  "dimLoop dims csvURL 3 (drop 3 (Split headerRow '','')) 0 list =
     Inr (list @
       [codeColumn ''Time_codelist'' (lookupDim dims ''time'') csvURL 3,
        labelColumn ''time'' (lookupDim dims ''time'') csvURL 4,
        codeColumn ''ashe-geography'' (lookupDim dims ''geography'') csvURL 5,
        labelColumn ''geography'' (lookupDim dims ''geography'') csvURL 6,
        codeColumn ''Hours_codelist'' (lookupDim dims ''hours'') csvURL 7,
        labelColumn ''hours'' (lookupDim dims ''hours'') csvURL 8,
        codeColumn ''Sex_codelist'' (lookupDim dims ''sex'') csvURL 9,
        labelColumn ''sex'' (lookupDim dims ''sex'') csvURL 10,
        codeColumn ''WorkingPattern_codelist'' (lookupDim dims ''workingpattern'') csvURL 11,
        labelColumn ''workingpattern'' (lookupDim dims ''workingpattern'') csvURL 12,
        codeColumn ''Statistics_codelist'' (lookupDim dims ''statistics'') csvURL 13,
        labelColumn ''statistics'' (lookupDim dims ''statistics'') csvURL 14])"
  unfolding header_tokens
  by (simp add: dimLoop.simps lower_tokens Let_def)

lemma populateColumns_closed_form:
  "populateColumns dims unit csvURL =
     Inr [observationColumn ''V4_2'' unit csvURL,
          markingColumn ''Data marking'' csvURL 1,
          markingColumn ''Coefficient of variation'' csvURL 2,
          codeColumn ''Time_codelist'' (lookupDim dims ''time'') csvURL 3,
          labelColumn ''time'' (lookupDim dims ''time'') csvURL 4,
          codeColumn ''ashe-geography'' (lookupDim dims ''geography'') csvURL 5,
          labelColumn ''geography'' (lookupDim dims ''geography'') csvURL 6,
          codeColumn ''Hours_codelist'' (lookupDim dims ''hours'') csvURL 7,
          labelColumn ''hours'' (lookupDim dims ''hours'') csvURL 8,
          codeColumn ''Sex_codelist'' (lookupDim dims ''sex'') csvURL 9,
          labelColumn ''sex'' (lookupDim dims ''sex'') csvURL 10,
          codeColumn ''WorkingPattern_codelist'' (lookupDim dims ''workingpattern'') csvURL 11,
          labelColumn ''workingpattern'' (lookupDim dims ''workingpattern'') csvURL 12,
          codeColumn ''Statistics_codelist'' (lookupDim dims ''statistics'') csvURL 13,
          labelColumn ''statistics'' (lookupDim dims ''statistics'') csvURL 14]"
proof -
  have len: "length (Split headerRow '','') = 15"
    by (simp add: header_tokens)
  have hd0: "Split headerRow '','' ! 0 = ''V4_2''"
    by (simp add: header_tokens)
  show ?thesis
    unfolding populateColumns_def
    by (simp add: hd0 first_token_parts Atoi_2 len markLoop_fixed dimLoop_fixed Let_def)
qed


lemma lookupDim_find:
  "lookupDim dims h =
     (case find (\<lambda>d. CodeList_Name d = h) dims of Some d \<Rightarrow> d | None \<Rightarrow> zeroCodeList)"
  by (induction dims) simp_all

lemma below_six: "k < 6 \<Longrightarrow> k = 0 \<or> k = 1 \<or> k = 2 \<or> k = 3 \<or> k = 4 \<or> k = (5::nat)"
  by arith

lemma attr_fixed:
  "attr (populateColumns dims unit csvURL) 3 key = codeColumn ''Time_codelist'' (lookupDim dims ''time'') csvURL 3 key"
  "attr (populateColumns dims unit csvURL) 4 key = labelColumn ''time'' (lookupDim dims ''time'') csvURL 4 key"
  "attr (populateColumns dims unit csvURL) 5 key = codeColumn ''ashe-geography'' (lookupDim dims ''geography'') csvURL 5 key"
  "attr (populateColumns dims unit csvURL) 6 key = labelColumn ''geography'' (lookupDim dims ''geography'') csvURL 6 key"
  "attr (populateColumns dims unit csvURL) 7 key = codeColumn ''Hours_codelist'' (lookupDim dims ''hours'') csvURL 7 key"
  "attr (populateColumns dims unit csvURL) 8 key = labelColumn ''hours'' (lookupDim dims ''hours'') csvURL 8 key"
  "attr (populateColumns dims unit csvURL) 9 key = codeColumn ''Sex_codelist'' (lookupDim dims ''sex'') csvURL 9 key"
  "attr (populateColumns dims unit csvURL) 10 key = labelColumn ''sex'' (lookupDim dims ''sex'') csvURL 10 key"
  "attr (populateColumns dims unit csvURL) 11 key = codeColumn ''WorkingPattern_codelist'' (lookupDim dims ''workingpattern'') csvURL 11 key"
  "attr (populateColumns dims unit csvURL) 12 key = labelColumn ''workingpattern'' (lookupDim dims ''workingpattern'') csvURL 12 key"
  "attr (populateColumns dims unit csvURL) 13 key = codeColumn ''Statistics_codelist'' (lookupDim dims ''statistics'') csvURL 13 key"
  "attr (populateColumns dims unit csvURL) 14 key = labelColumn ''statistics'' (lookupDim dims ''statistics'') csvURL 14 key"
  unfolding populateColumns_closed_form attr_def
  by simp_all

lemma labelColumn_attrs:
  "labelColumn h dim csvURL pos ''titles'' = Some (JString (CodeList_Label dim))"
  "labelColumn h dim csvURL pos ''description'' = Some (JString (CodeList_Description dim))"
  "labelColumn h dim csvURL pos ''name'' = Some (JString h)"
  by (simp_all add: labelColumn_def)

lemma codeColumn_attrs:
  "codeColumn c dim csvURL pos ''valueURL'' = Some (JString (CodeList_HRef dim @ ''/codes/{'' @ c @ ''}''))"
  "codeColumn c dim csvURL pos ''name'' = Some (JString c)"
  by (simp_all add: codeColumn_def)

lemma zeroCodeList_fields:
  "CodeList_Label zeroCodeList = []" "CodeList_Description zeroCodeList = []"
  "CodeList_HRef zeroCodeList = []" "CodeList_Name zeroCodeList = []"
  by (simp_all add: zeroCodeList_def)

text \<open>
  Claim C1. For the fixed header literal, \<open>populateColumns\<close> returns, for every
  dimension list, unit string and CSV URL, exactly 15 column descriptors: the
  observation column, the two data-marking columns, then the six pairs of a code column
  and a label column, in the order of the header; the \<open>@id\<close> attributes are, in
  order, the CSV URL followed by \<open>#col=0\<close>, \<open>#col=1\<close>, and so on without a gap up
  to \<open>#col=14\<close>. The \<open>name\<close>, \<open>titles\<close>, \<open>datatype\<close> and \<open>valueURL\<close>
  attributes written out below tell the three roles apart.
\<close>

theorem populateColumns_fifteen_columns:
  "\<exists>cols. populateColumns dims unit csvURL = Inr cols \<and> length cols = 15 \<and>
     cols =
       [observationColumn ''V4_2'' unit csvURL,
        markingColumn ''Data marking'' csvURL 1,
        markingColumn ''Coefficient of variation'' csvURL 2,
        codeColumn ''Time_codelist'' (lookupDim dims ''time'') csvURL 3,
        labelColumn ''time'' (lookupDim dims ''time'') csvURL 4,
        codeColumn ''ashe-geography'' (lookupDim dims ''geography'') csvURL 5,
        labelColumn ''geography'' (lookupDim dims ''geography'') csvURL 6,
        codeColumn ''Hours_codelist'' (lookupDim dims ''hours'') csvURL 7,
        labelColumn ''hours'' (lookupDim dims ''hours'') csvURL 8,
        codeColumn ''Sex_codelist'' (lookupDim dims ''sex'') csvURL 9,
        labelColumn ''sex'' (lookupDim dims ''sex'') csvURL 10,
        codeColumn ''WorkingPattern_codelist'' (lookupDim dims ''workingpattern'') csvURL 11,
        labelColumn ''workingpattern'' (lookupDim dims ''workingpattern'') csvURL 12,
        codeColumn ''Statistics_codelist'' (lookupDim dims ''statistics'') csvURL 13,
        labelColumn ''statistics'' (lookupDim dims ''statistics'') csvURL 14] \<and>
     map (\<lambda>c. c ''@id'') cols =
       [Some (JString (csvURL @ ''#col=0'')), Some (JString (csvURL @ ''#col=1'')),
        Some (JString (csvURL @ ''#col=2'')), Some (JString (csvURL @ ''#col=3'')),
        Some (JString (csvURL @ ''#col=4'')), Some (JString (csvURL @ ''#col=5'')),
        Some (JString (csvURL @ ''#col=6'')), Some (JString (csvURL @ ''#col=7'')),
        Some (JString (csvURL @ ''#col=8'')), Some (JString (csvURL @ ''#col=9'')),
        Some (JString (csvURL @ ''#col=10'')), Some (JString (csvURL @ ''#col=11'')),
        Some (JString (csvURL @ ''#col=12'')), Some (JString (csvURL @ ''#col=13'')),
        Some (JString (csvURL @ ''#col=14''))] \<and>
     map (\<lambda>c. c ''name'') cols =
       [Some (JString unit), None, None,
        Some (JString ''Time_codelist''), Some (JString ''time''),
        Some (JString ''ashe-geography''), Some (JString ''geography''),
        Some (JString ''Hours_codelist''), Some (JString ''hours''),
        Some (JString ''Sex_codelist''), Some (JString ''sex''),
        Some (JString ''WorkingPattern_codelist''), Some (JString ''workingpattern''),
        Some (JString ''Statistics_codelist''), Some (JString ''statistics'')] \<and>
     map (\<lambda>c. c ''titles'') (take 3 cols) =
       [Some (JString ''V4_2''), Some (JString ''Data marking''),
        Some (JString ''Coefficient of variation'')] \<and>
     map (\<lambda>c. c ''datatype'') cols = Some (JString ''number'') # replicate 14 None \<and>
     map (\<lambda>c. c ''valueURL'') (take 3 cols) = [None, None, None]"
  unfolding populateColumns_closed_form
  by (simp add: observationColumn_def markingColumn_def codeColumn_def labelColumn_def
        Itoa_positions numeral_eq_Suc)

text \<open>
  Claim C2. For each of the six dimension pairs of the header (\<open>k\<close> from 0 to 5) and
  every dimension list, \<open>populateColumns\<close> succeeds. When the list has an entry whose
  name equals the lowercased dimension token (\<open>d\<close> is the first such entry in list
  order), the label column's \<open>titles\<close> and \<open>description\<close> are that entry's label and
  description. When no entry has that name, both are the empty string and the code
  column's \<open>valueURL\<close> is built from an empty HRef.
\<close>

theorem label_column_of_matching_dimension:
  assumes "k < 6"
  shows "(let header = Split headerRow '','';
              codeHeader = header ! (3 + 2 * k);
              tok = ToLower (header ! (4 + 2 * k));
              r = populateColumns dims unit csvURL
          in \<not> isl r \<and>
             (\<forall>d. find (\<lambda>e. CodeList_Name e = tok) dims = Some d \<longrightarrow>
                attr r (4 + 2 * k) ''titles'' = Some (JString (CodeList_Label d)) \<and>
                attr r (4 + 2 * k) ''description'' = Some (JString (CodeList_Description d))) \<and>
             ((\<forall>e \<in> set dims. CodeList_Name e \<noteq> tok) \<longrightarrow>
                attr r (4 + 2 * k) ''titles'' = Some (JString []) \<and>
                attr r (4 + 2 * k) ''description'' = Some (JString []) \<and>
                attr r (3 + 2 * k) ''valueURL'' = Some (JString (''/codes/{'' @ codeHeader @ ''}''))))"
proof -
  have ok: "\<not> isl (populateColumns dims unit csvURL)"
    by (simp add: populateColumns_closed_form)
  have none: "find (\<lambda>e. CodeList_Name e = h) dims = None" if "\<forall>e \<in> set dims. CodeList_Name e \<noteq> h" for h
    using that by (simp add: find_None_iff)
  from below_six [OF assms] show ?thesis
    by (elim disjE)
       (simp_all add: Let_def header_tokens lower_tokens ok attr_fixed labelColumn_attrs
          codeColumn_attrs lookupDim_find none zeroCodeList_fields)
qed


theorem label_column_of_matching_dimension_witness:
  "attr (populateColumns sampleDims ''hours'' ''http://csv'') 4 ''titles'' = Some (JString ''Time period'') \<and>
   attr (populateColumns sampleDims ''hours'' ''http://csv'') 4 ''description'' = Some (JString ''Calendar years'') \<and>
   attr (populateColumns sampleDims ''hours'' ''http://csv'') 6 ''titles'' = Some (JString []) \<and>
   attr (populateColumns sampleDims ''hours'' ''http://csv'') 6 ''description'' = Some (JString []) \<and>
   attr (populateColumns sampleDims ''hours'' ''http://csv'') 5 ''valueURL'' = Some (JString ''/codes/{ashe-geography}'')"
  using label_column_of_matching_dimension [of 0 sampleDims "''hours''" "''http://csv''"]
        label_column_of_matching_dimension [of 1 sampleDims "''hours''" "''http://csv''"]
  by (simp add: Let_def header_tokens lower_tokens sampleDims_def)

text \<open>
  Claim C3, as stated, fails: the lookup is not case-insensitive. The stored name
  \<open>TIME\<close> differs from the header token \<open>Time\<close> only in letter case, and the
  columns of that pair are built from the zero-valued dimension, not from the stored
  one with its label \<open>Time period\<close>.
\<close>

theorem case_variant_name_not_matched:
  "ToLower ''TIME'' = ToLower ''Time'' \<and>
   CodeList_Label (hd upperDims) = ''Time period'' \<and>
   attr (populateColumns upperDims ''hours'' ''http://csv'') 4 ''titles'' = Some (JString []) \<and>
   attr (populateColumns upperDims ''hours'' ''http://csv'') 4 ''description'' = Some (JString []) \<and>
   attr (populateColumns upperDims ''hours'' ''http://csv'') 3 ''valueURL'' = Some (JString ''/codes/{Time_codelist}'')"
proof -
  have "ToLower ''TIME'' = ToLower ''Time''"
    by code_simp
  moreover have "lookupDim upperDims ''time'' = zeroCodeList"
    by (simp add: upperDims_def)
  ultimately show ?thesis
    by (simp add: attr_fixed labelColumn_attrs codeColumn_attrs zeroCodeList_fields upperDims_def)
qed

text \<open>
  Claim C3, amended. Only the header token is lowercased; the comparison with the
  stored names is exact. For each of the six dimension pairs and every dimension list,
  the code and label columns are built from the first stored dimension whose name equals
  the lowercased token, and from the zero-valued dimension when no stored name equals it
  (a name that differs from the lowercased token in letter case is such a name).
\<close>

theorem dimension_lookup_exact_after_lowercasing:
  assumes "k < 6"
  shows "(let header = Split headerRow '','';
              codeHeader = header ! (3 + 2 * k);
              tok = ToLower (header ! (4 + 2 * k));
              dim = (case find (\<lambda>e. CodeList_Name e = tok) dims of
                       Some d \<Rightarrow> d | None \<Rightarrow> zeroCodeList)
          in lookupDim dims tok = dim \<and>
             ((\<forall>e \<in> set dims. CodeList_Name e \<noteq> tok) \<longrightarrow> dim = zeroCodeList) \<and>
             (\<exists>cols. populateColumns dims unit csvURL = Inr cols \<and>
                cols ! (3 + 2 * k) = codeColumn codeHeader dim csvURL (3 + 2 * int k) \<and>
                cols ! (4 + 2 * k) = labelColumn tok dim csvURL (4 + 2 * int k)))"
proof -
  have none: "find (\<lambda>e. CodeList_Name e = h) dims = None" if "\<forall>e \<in> set dims. CodeList_Name e \<noteq> h" for h
    using that by (simp add: find_None_iff)
  from below_six [OF assms] show ?thesis
    by (elim disjE)
       (simp_all add: Let_def header_tokens lower_tokens populateColumns_closed_form
          lookupDim_find none)
qed

theorem dimension_lookup_exact_after_lowercasing_witness:
  "lookupDim upperDims ''time'' = zeroCodeList \<and>
   lookupDim sampleDims ''time'' = hd sampleDims \<and>
   (\<exists>cols. populateColumns sampleDims ''hours'' ''http://csv'' = Inr cols \<and>
      cols ! 3 = codeColumn ''Time_codelist'' (hd sampleDims) ''http://csv'' 3 \<and>
      cols ! 4 = labelColumn ''time'' (hd sampleDims) ''http://csv'' 4)"
  using dimension_lookup_exact_after_lowercasing [of 0 upperDims "''hours''" "''http://csv''"]
        dimension_lookup_exact_after_lowercasing [of 0 sampleDims "''hours''" "''http://csv''"]
  by (simp add: Let_def header_tokens lower_tokens sampleDims_def upperDims_def)

section \<open>The notes\<close>

lemma appendAlerts_map:
  "appendAlerts url alerts list =
     list @ map (\<lambda>a. \<lparr>Note_Type = Alert_Type a, Note_Target = url,
                       Note_Body = Alert_Description a, Note_Motivation = []\<rparr>) alerts"
  by (induction alerts arbitrary: list) simp_all

lemma appendUsageNotes_map:
  "appendUsageNotes url usage list =
     list @ map (\<lambda>u. \<lparr>Note_Type = UsageNote_Title u, Note_Target = url @ ''#col=need-to-store'',
                       Note_Body = UsageNote_Note u, Note_Motivation = []\<rparr>) usage"
  by (induction usage arbitrary: list) simp_all

lemma addNotes_map:
  "addNotes url alerts notes =
     map (\<lambda>a. \<lparr>Note_Type = Alert_Type a, Note_Target = url,
                Note_Body = Alert_Description a, Note_Motivation = []\<rparr>) alerts @
     map (\<lambda>u. \<lparr>Note_Type = UsageNote_Title u, Note_Target = url @ ''#col=need-to-store'',
                Note_Body = UsageNote_Note u, Note_Motivation = []\<rparr>) notes"
  by (simp add: addNotes_def appendAlerts_map appendUsageNotes_map)

lemma addNotes_sample:
  "map Note_Target (addNotes ''http://csv'' sampleAlerts sampleUsage) =
     [''http://csv'', ''http://csv'', ''http://csv#col=need-to-store'']"
  by (simp add: addNotes_map sampleAlerts_def sampleUsage_def)

text \<open>
  Claim C4. For every URL, every list of alerts and every list of usage notes,
  \<open>addNotes\<close> returns as many notes as there are alerts and usage notes together: first
  one note for each alert, in the order of the alerts, with the bare URL as target; then
  one note for each usage note, in their order, with the URL followed by
  \<open>#col=need-to-store\<close> as target.
\<close>

theorem addNotes_alerts_then_usage_notes:
  "length (addNotes url alerts notes) = length alerts + length notes \<and>
   map Note_Type (take (length alerts) (addNotes url alerts notes)) = map Alert_Type alerts \<and>
   map Note_Body (take (length alerts) (addNotes url alerts notes)) = map Alert_Description alerts \<and>
   map Note_Target (take (length alerts) (addNotes url alerts notes)) = replicate (length alerts) url \<and>
   map Note_Type (drop (length alerts) (addNotes url alerts notes)) = map UsageNote_Title notes \<and>
   map Note_Body (drop (length alerts) (addNotes url alerts notes)) = map UsageNote_Note notes \<and>
   map Note_Target (drop (length alerts) (addNotes url alerts notes)) =
     replicate (length notes) (url @ ''#col=need-to-store'')"
  by (simp add: addNotes_map comp_def map_replicate_const)

text \<open>
  Claim C9. The \<open>Motivation\<close> of every note \<open>addNotes\<close> returns is the empty
  string, for every list of alerts and of usage notes.
\<close>

theorem addNotes_motivation_empty:
  "map Note_Motivation (addNotes url alerts notes) = replicate (length alerts + length notes) []"
  by (simp add: addNotes_map comp_def map_replicate_const replicate_add)

section \<open>The top-level fields\<close>

text \<open>
  Claim C5. For every metadata document with a non-empty contacts list,
  \<open>assignTopLevel\<close> returns a document whose URL, title, description, issued date,
  theme, license and frequency are the metadata's CSV download HRef, title, description,
  release date, theme, license and release frequency; the creator holds the publisher's
  name, type and HRef; the context is \<open>http://www.w3.org/ns/csvw\<close>.
\<close>

theorem assignTopLevel_copies_fields:
  assumes "Metadata_Contacts m \<noteq> []"
  shows "\<exists>csv. assignTopLevel (Some m) = Inr csv \<and>
           CSVW_URL csv = DownloadObject_HRef (DownloadList_CSV (Metadata_Downloads m)) \<and>
           CSVW_Title csv = Metadata_Title m \<and>
           CSVW_Description csv = Metadata_Description m \<and>
           CSVW_Issued csv = Metadata_ReleaseDate m \<and>
           CSVW_Theme csv = Metadata_Theme m \<and>
           CSVW_License csv = Metadata_License m \<and>
           CSVW_Frequency csv = Metadata_ReleaseFrequency m \<and>
           CSVW_Creator csv =
             \<lparr>Creator_Name = Publisher_Name (Metadata_Publisher m),
              Creator_Type = Publisher_Type (Metadata_Publisher m),
              Creator_ID = Publisher_HRef (Metadata_Publisher m)\<rparr> \<and>
           CSVW_Context csv = ''http://www.w3.org/ns/csvw''"
  using assms by (cases "Metadata_Contacts m") (simp_all add: assignTopLevel_def)

theorem assignTopLevel_copies_fields_witness:
  "Metadata_Contacts sampleMetadata \<noteq> [] \<and>
   (\<exists>csv. assignTopLevel (Some sampleMetadata) = Inr csv \<and>
      CSVW_URL csv = ''http://csv'' \<and> CSVW_Title csv = ''ASHE table 7'' \<and>
      CSVW_Description csv = ''Hours worked'' \<and> CSVW_Issued csv = ''2017-10-26'' \<and>
      CSVW_Theme csv = ''Labour'' \<and> CSVW_License csv = ''OGL'' \<and>
      CSVW_Frequency csv = ''Annual'' \<and>
      CSVW_Creator csv = \<lparr>Creator_Name = ''ONS'', Creator_Type = ''org'', Creator_ID = ''http://ons''\<rparr> \<and>
      CSVW_Context csv = ''http://www.w3.org/ns/csvw'')"
proof -
  have h: "Metadata_Contacts sampleMetadata \<noteq> []"
    by (simp add: sampleMetadata_def)
  show ?thesis
    using h assignTopLevel_copies_fields [OF h]
    by (simp add: sampleMetadata_def zeroMetadata_def)
qed

text \<open>
  Claim C6. For a metadata document (a pointer that is not nil), \<open>assignTopLevel\<close>
  panics if and only if the contacts list is empty, with an index out of range; when the
  list is not empty, the contact of the returned document is its first element.
\<close>

theorem assignTopLevel_contact_is_first:
  "isl (assignTopLevel (Some m)) = (Metadata_Contacts m = []) \<and>
   (assignTopLevel (Some m) = Inl IndexOutOfRange) = (Metadata_Contacts m = []) \<and>
   (\<forall>c cs. Metadata_Contacts m = c # cs \<longrightarrow>
      (\<exists>csv. assignTopLevel (Some m) = Inr csv \<and> CSVW_Contact csv = c))"
  by (cases "Metadata_Contacts m") (simp_all add: assignTopLevel_def)

theorem assignTopLevel_contact_is_first_witness:
  "isl (assignTopLevel (Some zeroMetadata)) \<and>
   assignTopLevel (Some zeroMetadata) = Inl IndexOutOfRange \<and>
   \<not> isl (assignTopLevel (Some sampleMetadata)) \<and>
   (\<exists>csv. assignTopLevel (Some sampleMetadata) = Inr csv \<and> CSVW_Contact csv = sampleContact)"
  using assignTopLevel_contact_is_first [of zeroMetadata]
        assignTopLevel_contact_is_first [of sampleMetadata]
  by (simp add: sampleMetadata_def zeroMetadata_def)

section \<open>Fetching the metadata\<close>

text \<open>
  The two tiers that \<open>getMetadata\<close> does implement: it ends the process exactly when
  building or sending the request fails, and a body that does not decode is logged and
  returned as whatever \<open>json.Unmarshal\<close> left in the zero-valued document.
\<close>

lemma getMetadata_fatal_iff:
  "(\<exists>msg. getMetadata w url = Fatal msg) =
     (isl (http_NewRequest w ''GET'' url) \<or>
      (\<exists>req. http_NewRequest w ''GET'' url = Inr req \<and> isl (client_Do w req)))"
  by (auto simp: getMetadata_def split: sum.splits prod.splits option.splits)

lemma getMetadata_decode_failure:
  assumes "http_NewRequest w ''GET'' url = Inr req" and "client_Do w req = Inr resp"
    and "ioutil_ReadAll w resp = Inr b" and "json_Unmarshal w b zeroMetadata = (md, Some err)"
  shows "getMetadata w url = Returned (Some md) [err]"
  using assms by (simp add: getMetadata_def)

text \<open>
  Claim C7 says that \<open>getMetadata\<close> has two failure tiers only, transport failures
  being fatal. When the request succeeds and reading the response body fails,
  \<open>getMetadata\<close> neither ends the process nor logs anything: it returns nil.
\<close>

theorem getMetadata_body_read_failure:
  "getMetadata bodyReadFailure metadataURL = Returned None []"
  by (simp add: getMetadata_def bodyReadFailure_def)

text \<open>
  Claim C10. When the request succeeds and reading the response body fails,
  \<open>getMetadata\<close> returns a nil pointer without ending the process; reading a field
  through it in \<open>assignTopLevel\<close> panics, so \<open>main\<close> stops there with a nil
  pointer dereference.
\<close>

theorem body_read_failure_nil_then_panic:
  assumes "http_NewRequest w ''GET'' url = Inr req" and "client_Do w req = Inr resp"
    and "ioutil_ReadAll w resp = Inl err"
  shows "getMetadata w url = Returned None [] \<and>
         assignTopLevel None = Inl NilPointerDereference \<and>
         (url = metadataURL \<longrightarrow> main w = ([], Panicked NilPointerDereference))"
proof -
  have fetched: "getMetadata w url = Returned None []"
    using assms by (simp add: getMetadata_def)
  have deref: "assignTopLevel None = Inl NilPointerDereference"
    by (simp add: assignTopLevel_def)
  have "main w = ([], Panicked NilPointerDereference)" if "url = metadataURL"
    using fetched deref unfolding that by (simp add: main_def)
  with fetched deref show ?thesis by blast
qed

theorem body_read_failure_nil_then_panic_witness:
  "getMetadata bodyReadFailure metadataURL = Returned None [] \<and>
   main bodyReadFailure = ([], Panicked NilPointerDereference)"
proof -
  have a: "http_NewRequest bodyReadFailure ''GET'' metadataURL = Inr metadataURL"
    and b: "client_Do bodyReadFailure metadataURL = Inr 200"
    and c: "ioutil_ReadAll bodyReadFailure 200 = Inl ''unexpected EOF''"
    by (simp_all add: bodyReadFailure_def)
  show ?thesis
    using body_read_failure_nil_then_panic [OF a b c] by simp
qed

end
